theory Spec2Isabelle
  imports Main
begin

section \<open>Reference numbers (worker, generateReferenceNumber)\<close>

text \<open>
  The worker allocates a quote's reference with
  \<^verbatim>\<open>
  function generateReferenceNumber(existingRefs = []) {
    const year = new Date().getFullYear();
    let counter = 1;
    let reference;
    do {
      reference = `GT-${year}-${counter.toString().padStart(4, '0')}`;
      counter++;
    } while (existingRefs.includes(reference));
    return reference;
  }
  \<close>
  The year read from the clock is a parameter of the model. \<open>counter\<close> and the year are
  non-negative integers, printed in decimal by \<open>toString\<close> and by the template literal.
\<close>

definition digit :: "nat \<Rightarrow> char" where
  "digit d = ''0123456789'' ! d"

fun toString :: "nat \<Rightarrow> string" where
  "toString n = (if n < 10 then [digit n] else toString (n div 10) @ [digit (n mod 10)])"

declare toString.simps [simp del]

text \<open>
  \<open>s.padStart(targetLength, c)\<close> with a one-character pad: \<open>s\<close> is returned as it is
  when it is already long enough (the truncating subtraction of \<open>nat\<close> gives no padding
  then), and is never cut.
\<close>

definition padStart :: "string \<Rightarrow> nat \<Rightarrow> char \<Rightarrow> string" where
  "padStart s targetLength padChar = replicate (targetLength - length s) padChar @ s"

text \<open>The template literal of the loop body.\<close>

definition reference_template :: "nat \<Rightarrow> nat \<Rightarrow> string" where
  "reference_template year counter =
     ''GT-'' @ toString year @ ''-'' @ padStart (toString counter) 4 CHR ''0''"

text \<open>Reading a decimal numeral back, used to tell two candidates apart.\<close>

definition isDigit :: "char \<Rightarrow> bool" where
  "isDigit c = (c \<in> set ''0123456789'')"

definition digit_value :: "char \<Rightarrow> nat" where
  "digit_value c = of_char c - 48"

definition decimal_value :: "string \<Rightarrow> nat" where
  "decimal_value s = foldl (\<lambda>a c. 10 * a + digit_value c) 0 s"

lemma digit_cases: "d < 10 \<Longrightarrow> d \<in> {0, 1, 2, 3, 4, 5, 6, 7, 8, 9 :: nat}"
  by auto

lemma digit_value_digit: "d < 10 \<Longrightarrow> digit_value (digit d) = d"
  by (drule digit_cases) (auto simp: digit_def digit_value_def)

lemma isDigit_digit: "d < 10 \<Longrightarrow> isDigit (digit d)"
  by (drule digit_cases) (auto simp: digit_def isDigit_def)

lemma decimal_value_snoc: "decimal_value (s @ [c]) = 10 * decimal_value s + digit_value c"
  by (simp add: decimal_value_def)

lemma decimal_value_toString: "decimal_value (toString n) = n"
proof (induction n rule: toString.induct)
  case (1 n)
  show ?case
  proof (cases "n < 10")
    case True
    then show ?thesis
      by (simp add: toString.simps [of n] decimal_value_def digit_value_digit)
  next
    case False
    then have "decimal_value (toString (n div 10)) = n div 10"
      using "1.IH" by simp
    with False show ?thesis
      by (simp add: toString.simps [of n] decimal_value_snoc digit_value_digit)
  qed
qed

lemma toString_digits: "list_all isDigit (toString n)"
proof (induction n rule: toString.induct)
  case (1 n)
  show ?case
  proof (cases "n < 10")
    case True
    then show ?thesis by (simp add: toString.simps [of n] isDigit_digit)
  next
    case False
    with "1.IH" show ?thesis by (simp add: toString.simps [of n] isDigit_digit)
  qed
qed

lemma toString_length_le: "0 < k \<Longrightarrow> n < 10 ^ k \<Longrightarrow> length (toString n) \<le> k"
proof (induction k arbitrary: n)
  case 0
  then show ?case by simp
next
  case (Suc k)
  show ?case
  proof (cases "n < 10")
    case True
    then show ?thesis by (simp add: toString.simps [of n])
  next
    case False
    then have k: "0 < k" using Suc.prems by (cases k) auto
    have "n div 10 < 10 ^ k" using Suc.prems by auto
    then have "length (toString (n div 10)) \<le> k" using Suc.IH k by blast
    with False show ?thesis by (simp add: toString.simps [of n])
  qed
qed

lemma leading_zeros_value:
  "foldl (\<lambda>a c. 10 * a + digit_value c) 0 (replicate k CHR ''0'') = 0"
  by (induction k) (simp_all add: digit_value_def)

lemma decimal_value_padStart: "decimal_value (padStart s n CHR ''0'') = decimal_value s"
  by (simp add: decimal_value_def padStart_def leading_zeros_value)

lemma isDigit_zero: "isDigit CHR ''0''"
  by (simp add: isDigit_def)

lemma padStart_digits: "list_all isDigit s \<Longrightarrow> list_all isDigit (padStart s n CHR ''0'')"
  by (auto simp: padStart_def list_all_iff isDigit_zero)

lemma padStart_length: "length (padStart s n c) = max n (length s)"
  by (simp add: padStart_def)

lemma reference_template_inj:
  "reference_template year a = reference_template year b \<longleftrightarrow> a = b"
proof
  assume "reference_template year a = reference_template year b"
  then have "padStart (toString a) 4 CHR ''0'' = padStart (toString b) 4 CHR ''0''"
    by (simp add: reference_template_def)
  then have "decimal_value (padStart (toString a) 4 CHR ''0'')
      = decimal_value (padStart (toString b) 4 CHR ''0'')"
    by simp
  then show "a = b"
    by (simp add: decimal_value_padStart decimal_value_toString)
qed simp

lemma finite_used_counters: "finite {k. reference_template year k \<in> set existingRefs}"
proof -
  have "inj (reference_template year)"
    by (simp add: inj_def reference_template_inj)
  then have "finite (reference_template year -` set existingRefs)"
    by (simp add: finite_vimageI)
  then show ?thesis by (simp add: vimage_def)
qed

text \<open>
  The do-while loop: the body runs, and runs again while the candidate is in
  \<open>existingRefs\<close>. It ends because the candidates of different counters differ and the
  array is finite: the counters from the current one on whose candidate is in the array
  become fewer at every turn.
\<close>

function generateReferenceNumber_loop :: "nat \<Rightarrow> string list \<Rightarrow> nat \<Rightarrow> string" where
  "generateReferenceNumber_loop year existingRefs counter =
     (let reference = reference_template year counter
      in if reference \<in> set existingRefs
         then generateReferenceNumber_loop year existingRefs (counter + 1)
         else reference)"
  by pat_completeness auto
termination
proof (relation "measure (\<lambda>(year, existingRefs, counter).
          card {k. counter \<le> k \<and> reference_template year k \<in> set existingRefs})")
  show "wf (measure (\<lambda>(year, existingRefs, counter).
          card {k. counter \<le> k \<and> reference_template year k \<in> set existingRefs}))"
    by simp
next
  fix year :: nat and existingRefs :: "string list" and counter :: nat and x :: string
  assume x: "x = reference_template year counter" and used: "x \<in> set existingRefs"
  let ?S = "\<lambda>c. {k. c \<le> k \<and> reference_template year k \<in> set existingRefs}"
  have fin: "finite (?S counter)"
    using finite_used_counters [of year existingRefs] by simp
  have "counter \<in> ?S counter" using x used by simp
  moreover have "counter \<notin> ?S (counter + 1)" by simp
  moreover have "?S (counter + 1) \<subseteq> ?S counter" by auto
  ultimately have "?S (counter + 1) \<subset> ?S counter" by blast
  then have "card (?S (counter + 1)) < card (?S counter)"
    using fin by (rule psubset_card_mono [rotated])
  then show "((year, existingRefs, counter + 1), (year, existingRefs, counter))
      \<in> measure (\<lambda>(year, existingRefs, counter).
          card {k. counter \<le> k \<and> reference_template year k \<in> set existingRefs})"
    by simp
qed

declare generateReferenceNumber_loop.simps [simp del]

definition generateReferenceNumber :: "nat \<Rightarrow> string list \<Rightarrow> string" where
  "generateReferenceNumber year existingRefs = generateReferenceNumber_loop year existingRefs 1"

section \<open>The worker's quote endpoints (handleQuotes)\<close>

subsection \<open>Requests, rows and responses\<close>

text \<open>
  The body of a submission is decoded JSON of the shape
  \<open>{ items: [...], customer: {...}, comments?: string }\<close>: the elements of \<open>items\<close>
  are item objects with a numeric price and quantity, and \<open>customer\<close>, when it is
  there, is a customer object. Bodies outside this shape (an array holding \<open>null\<close>, a
  customer that is a string or a number) are not in the model. JavaScript numbers are
  doubles; the model takes prices and quantities that are integers, on which the
  handler's products and sums are exact (below \<open>2^53\<close>).
\<close>

record item =
  name :: string
  price :: int
  quantity :: int

record customer =
  firstName :: string
  lastName :: string
  email :: string
  phone :: "string option"
  company :: "string option"

text \<open>
  \<open>body_items\<close> is \<open>None\<close> when \<open>items\<close> is absent, null or not an array (the
  first check of the handler does not tell these apart); \<open>body_customer\<close> is \<open>None\<close>
  when \<open>customer\<close> is absent or null, the values of the shape that \<open>!customer\<close>
  holds for, and \<open>Some c\<close> when it is the customer object \<open>c\<close>. \<open>body_other\<close> holds the
  properties of the body the handler does not destructure.
\<close>

record quote_request =
  body_items :: "item list option"
  body_customer :: "customer option"
  body_comments :: "string option"
  body_other :: "(string \<times> string) list"

text \<open>
  A row of the table \<open>quotes\<close> of the worker's schema. The columns \<open>customer_data\<close> and
  \<open>items\<close> hold JSON text; the model keeps the value that the text encodes
  (\<open>JSON.parse\<close> after \<open>JSON.stringify\<close>). Timestamps are instants of a clock.
\<close>

type_synonym timestamp = nat

record quotes_row =
  row_id :: string
  row_reference_number :: string
  row_customer_data :: customer
  row_items :: "item list"
  row_total_amount :: int
  row_currency :: string
  row_status :: string
  row_comments :: "string option"
  row_created_at :: timestamp
  row_updated_at :: timestamp

text \<open>The quote object that the submission answers with.\<close>

record quote =
  quoteId :: string
  referenceNumber :: string
  customer :: customer
  items :: "item list"
  totalAmount :: int
  currency :: string
  status :: string
  comments :: "string option"
  createdAt :: timestamp

text \<open>
  The object literal that builds the quote, property by property, in the order of the
  source: \<open>id\<close>, \<open>referenceNumber\<close>, \<open>customer\<close>, \<open>items\<close>, \<open>totalAmount\<close>,
  \<open>currency\<close>, \<open>status\<close>, \<open>comments\<close> (undefined when the body has none) and
  \<open>createdAt\<close>.
\<close>

datatype property =
    Text string
  | Number int
  | CustomerObject customer
  | ItemArray "item list"
  | Instant timestamp
  | Undefined

definition quote_object :: "quote \<Rightarrow> (string \<times> property) list" where
  "quote_object q =
     [(''id'', Text (quoteId q)),
      (''referenceNumber'', Text (referenceNumber q)),
      (''customer'', CustomerObject (customer q)),
      (''items'', ItemArray (items q)),
      (''totalAmount'', Number (totalAmount q)),
      (''currency'', Text (currency q)),
      (''status'', Text (status q)),
      (''comments'', (case comments q of None \<Rightarrow> Undefined | Some c \<Rightarrow> Text c)),
      (''createdAt'', Instant (createdAt q))]"

text \<open>
  The JSON payloads of the quote endpoints:
  \<open>{success: false, message}\<close>, \<open>{success: true, quote, message}\<close>,
  \<open>{success: true, quote}\<close> (the row under the quote object's field names),
  \<open>{success: true, quotes, pagination: {limit, offset, count}}\<close> and \<open>{error}\<close>.
\<close>

datatype payload =
    Failure string
  | QuoteCreated quote string
  | QuoteFound quotes_row
  | QuoteList "quotes_row list" int int nat
  | EndpointError string

datatype response = Response (data: payload) (http_status: nat)

definition jsonResponse :: "payload \<Rightarrow> nat \<Rightarrow> response" where
  "jsonResponse d s = Response d s"

text \<open>
  What the handler reads from its surroundings: the calendar year of the worker's
  clock (\<open>new Date().getFullYear()\<close>), the token that \<open>generateUUID()\<close> draws, the
  time of the worker's clock (\<open>new Date()\<close>), and the database's \<open>CURRENT_TIMESTAMP\<close>,
  the default of \<open>created_at\<close> and \<open>updated_at\<close>.
\<close>

record env =
  getFullYear :: nat
  generateUUID :: string
  date_now :: timestamp
  current_timestamp :: timestamp

subsection \<open>The table\<close>

text \<open>
  The schema declares \<open>id TEXT PRIMARY KEY\<close> and \<open>reference_number TEXT UNIQUE NOT NULL\<close>:
  an \<open>INSERT\<close> of a row whose id or reference is already in the table is refused (the
  statement throws), and the table stays as it was. \<open>None\<close> is that failure.
\<close>

definition insert_row :: "quotes_row list \<Rightarrow> quotes_row \<Rightarrow> quotes_row list option" where
  "insert_row table r =
     (if row_id r \<in> set (map row_id table)
         \<or> row_reference_number r \<in> set (map row_reference_number table)
      then None
      else Some (table @ [r]))"

text \<open>
  \<open>ORDER BY created_at DESC\<close>. SQL leaves the order of rows with equal keys open; the
  model takes the one of a stable sort, reversed.
\<close>

definition order_by_created_at_desc :: "quotes_row list \<Rightarrow> quotes_row list" where
  "order_by_created_at_desc table = rev (sort_key row_created_at table)"

subsection \<open>POST /api/quotes\<close>

text \<open>\<open>x || null\<close> on an optional string: the empty string is falsy.\<close>

definition or_null :: "string option \<Rightarrow> string option" where
  "or_null x = (case x of None \<Rightarrow> None | Some s \<Rightarrow> if s = [] then None else Some s)"

definition total_of :: "item list \<Rightarrow> int" where
  "total_of its = foldl (\<lambda>sum it. sum + price it * quantity it) 0 its"

text \<open>
  The handler checks \<open>items\<close>, then \<open>customer\<close>, reads the references of the table,
  computes the total, allocates the reference and the id, inserts the row and answers
  201 with the quote. An exception anywhere (here: the refused insert) is caught and
  answered 500. The two notification mails only write to the log and are inside a
  \<open>try\<close> of their own: they do not change the answer.
\<close>

definition handleQuotes_POST ::
    "env \<Rightarrow> quotes_row list \<Rightarrow> quote_request \<Rightarrow> response \<times> quotes_row list" where
  "handleQuotes_POST e table body =
     (case body_items body of
        None \<Rightarrow> (jsonResponse (Failure ''Quote must have at least one item'') 400, table)
      | Some its \<Rightarrow>
          if its = []
          then (jsonResponse (Failure ''Quote must have at least one item'') 400, table)
          else
            (case body_customer body of
               None \<Rightarrow> (jsonResponse (Failure ''Customer information is required'') 400, table)
             | Some c \<Rightarrow>
                 (let refNumbers = map row_reference_number table;
                      total = total_of its;
                      reference = generateReferenceNumber (getFullYear e) refNumbers;
                      ident = generateUUID e
                  in case insert_row table
                       \<lparr>row_id = ident, row_reference_number = reference,
                        row_customer_data = c, row_items = its, row_total_amount = total,
                        row_currency = ''ZAR'', row_status = ''pending'',
                        row_comments = or_null (body_comments body),
                        row_created_at = current_timestamp e,
                        row_updated_at = current_timestamp e\<rparr> of
                       None \<Rightarrow> (jsonResponse (Failure ''Failed to create quote'') 500, table)
                     | Some table' \<Rightarrow>
                         (jsonResponse
                            (QuoteCreated
                               \<lparr>quoteId = ident, referenceNumber = reference, customer = c,
                                items = its, totalAmount = total, currency = ''ZAR'',
                                status = ''pending'', comments = body_comments body,
                                createdAt = date_now e\<rparr>
                               ''Quote created successfully'') 201,
                          table'))))"

subsection \<open>GET /api/quotes/:reference\<close>

text \<open>
  The handler tests the path parameter with the regular expression literal
  \<^verbatim>\<open>/^GT-\\d{4}-\\d{4}$/\<close>. In a regular expression literal the two characters
  \<^verbatim>\<open>\\\<close> are an escaped backslash, which matches the character backslash itself;
  the \<open>d\<close> after it is the letter, and \<open>{4}\<close> repeats that letter. Between its two
  anchors the expression therefore matches one text only: \<open>GT-\<close>, a backslash,
  \<open>dddd\<close>, \<open>-\<close>, a backslash, \<open>dddd\<close>.
\<close>

definition backslash :: char where
  "backslash = CHR 0x5C"

definition reference_regex_test :: "string \<Rightarrow> bool" where
  "reference_regex_test reference =
     (reference = ''GT-'' @ [backslash] @ replicate 4 CHR ''d''
                  @ ''-'' @ [backslash] @ replicate 4 CHR ''d'')"

definition handleQuotes_GET_reference :: "quotes_row list \<Rightarrow> string \<Rightarrow> response" where
  "handleQuotes_GET_reference table reference =
     (if reference_regex_test reference
      then (case find (\<lambda>r. row_reference_number r = reference) table of
              None \<Rightarrow> jsonResponse (Failure ''Quote not found'') 404
            | Some result \<Rightarrow> jsonResponse (QuoteFound result) 200)
      else jsonResponse
             (Failure ''Invalid reference number format. Expected: GT-YYYY-NNNN'') 400)"

text \<open>
  The pattern of the specification, \<^verbatim>\<open>^GT-\d{4}-\d{4,}$\<close>, in the
  specification's words: \<open>GT-\<close>, four digits, \<open>-\<close>, four digits or more.
\<close>

definition spec_reference_pattern :: "string \<Rightarrow> bool" where
  "spec_reference_pattern s =
     (take 3 s = ''GT-''
      \<and> length (take 4 (drop 3 s)) = 4 \<and> list_all isDigit (take 4 (drop 3 s))
      \<and> take 1 (drop 7 s) = ''-''
      \<and> 4 \<le> length (drop 8 s) \<and> list_all isDigit (drop 8 s))"

subsection \<open>GET /api/quotes\<close>

text \<open>
  \<open>parseInt(url.searchParams.get('limit')) || 50\<close>: the parameter parsed by
  \<open>parseInt\<close> is an integer, or \<open>NaN\<close> (\<open>None\<close>) when the parameter is absent or
  does not start with a number. \<open>||\<close> takes its right operand when the left one is
  falsy: \<open>NaN\<close> and \<open>0\<close>.
\<close>

definition or_default :: "int option \<Rightarrow> int \<Rightarrow> int" where
  "or_default parsed d = (case parsed of None \<Rightarrow> d | Some n \<Rightarrow> if n = 0 then d else n)"

text \<open>
  \<open>LIMIT ? OFFSET ?\<close>: the limit is between 1 and 100 where the query runs; a negative
  offset counts as 0 in SQLite, which is what \<open>nat\<close> makes of it.
\<close>

definition handleQuotes_GET_all :: "quotes_row list \<Rightarrow> int option \<Rightarrow> int option \<Rightarrow> response" where
  "handleQuotes_GET_all table parsedLimit parsedOffset =
     (let limit = or_default parsedLimit 50;
          offset = or_default parsedOffset 0
      in if limit < 1 \<or> limit > 100
         then jsonResponse (Failure ''Limit must be between 1 and 100'') 400
         else (let quotes = take (nat limit) (drop (nat offset) (order_by_created_at_desc table))
               in jsonResponse (QuoteList quotes limit offset (length quotes)) 200))"

section \<open>The database service (azure-database.ts)\<close>

text \<open>
  \<open>QuoteStorage\<close> is the record the service stores and returns; the fields carry the
  prefix \<open>qs_\<close> here. A row of the PostgreSQL table has the same content under
  snake-case column names (\<open>convertRowToQuote\<close> renames them back), so the table is a
  list of such records. Amounts are taken as integers and timestamps as instants.
\<close>

datatype quote_status = pending | approved | rejected | expired

record QuoteStorage =
  qs_id :: string
  qs_referenceNumber :: string
  qs_customerData :: string
  qs_items :: string
  qs_subtotal :: int
  qs_total :: int
  qs_currency :: string
  qs_status :: quote_status
  qs_comments :: "string option"
  qs_createdAt :: timestamp
  qs_expiresAt :: timestamp
  qs_lastModifiedAt :: "timestamp option"

text \<open>
  The module's state: \<open>pgPool\<close>, which is null (\<open>None\<close>) until
  \<open>initializePostgreSQL\<close> has run and gives access to the table \<open>quotes\<close> afterwards,
  and the array \<open>devQuoteStorage\<close>, the in-memory storage used while \<open>pgPool\<close> is null.
\<close>

record database =
  pgPool :: "QuoteStorage list option"
  devQuoteStorage :: "QuoteStorage list"

datatype db_error = UniqueViolation

text \<open>
  \<open>createTables\<close> declares \<open>id VARCHAR(255) PRIMARY KEY\<close> and
  \<open>reference_number VARCHAR(255) UNIQUE NOT NULL\<close>: PostgreSQL refuses the \<open>INSERT\<close> of
  a row whose id or reference is in the table, the query throws and \<open>createQuote\<close>
  passes the error on. The parameters of the statement are the fields of the quote,
  with \<open>quote.comments || null\<close> for the comments.
\<close>

definition pg_insert :: "QuoteStorage list \<Rightarrow> QuoteStorage \<Rightarrow> db_error + QuoteStorage list" where
  "pg_insert table r =
     (if qs_id r \<in> set (map qs_id table)
         \<or> qs_referenceNumber r \<in> set (map qs_referenceNumber table)
      then Inl UniqueViolation
      else Inr (table @ [r]))"

definition createQuote ::
    "database \<Rightarrow> QuoteStorage \<Rightarrow> (db_error + QuoteStorage) \<times> database" where
  "createQuote db q =
     (case pgPool db of
        Some table \<Rightarrow>
          (let r = q\<lparr>qs_comments := or_null (qs_comments q)\<rparr>
           in case pg_insert table r of
                Inl err \<Rightarrow> (Inl err, db)
              | Inr table' \<Rightarrow> (Inr r, db\<lparr>pgPool := Some table'\<rparr>))
      | None \<Rightarrow> (Inr q, db\<lparr>devQuoteStorage := devQuoteStorage db @ [q]\<rparr>))"

text \<open>
  \<open>getAllQuotes(limit = 50, offset = 0)\<close>: an argument left out is \<open>None\<close>. The
  relational branch runs \<open>ORDER BY created_at DESC LIMIT $1 OFFSET $2\<close>; the in-memory
  branch is \<open>devQuoteStorage.slice(offset, offset + limit)\<close>. Limit and offset are
  non-negative integers.
\<close>

definition order_by_createdAt_desc :: "QuoteStorage list \<Rightarrow> QuoteStorage list" where
  "order_by_createdAt_desc table = rev (sort_key qs_createdAt table)"

definition slice :: "'a list \<Rightarrow> nat \<Rightarrow> nat \<Rightarrow> 'a list" where
  "slice xs start stop = take (stop - start) (drop start xs)"

definition getAllQuotes :: "database \<Rightarrow> nat option \<Rightarrow> nat option \<Rightarrow> QuoteStorage list" where
  "getAllQuotes db limitArg offsetArg =
     (let limit = (case limitArg of None \<Rightarrow> 50 | Some l \<Rightarrow> l);
          offset = (case offsetArg of None \<Rightarrow> 0 | Some off \<Rightarrow> off)
      in case pgPool db of
           Some table \<Rightarrow> take limit (drop offset (order_by_createdAt_desc table))
         | None \<Rightarrow> slice (devQuoteStorage db) offset (offset + limit))"

section \<open>Properties of the reference allocation\<close>

subsection \<open>What the loop returns\<close>

lemma generateReferenceNumber_loop_least:
  "\<exists>k\<ge>counter.
      generateReferenceNumber_loop year existingRefs counter = reference_template year k
      \<and> reference_template year k \<notin> set existingRefs
      \<and> (\<forall>j. counter \<le> j \<and> j < k \<longrightarrow> reference_template year j \<in> set existingRefs)"
proof (induction year existingRefs counter rule: generateReferenceNumber_loop.induct)
  case (1 year existingRefs counter)
  show ?case
  proof (cases "reference_template year counter \<in> set existingRefs")
    case True
    then obtain k where k: "counter + 1 \<le> k"
      "generateReferenceNumber_loop year existingRefs (counter + 1) = reference_template year k"
      "reference_template year k \<notin> set existingRefs"
      "\<forall>j. counter + 1 \<le> j \<and> j < k \<longrightarrow> reference_template year j \<in> set existingRefs"
      using "1.IH" by blast
    have "\<forall>j. counter \<le> j \<and> j < k \<longrightarrow> reference_template year j \<in> set existingRefs"
    proof (intro allI impI)
      fix j assume j: "counter \<le> j \<and> j < k"
      show "reference_template year j \<in> set existingRefs"
      proof (cases "j = counter")
        case True
        then show ?thesis
          using \<open>reference_template year counter \<in> set existingRefs\<close> by simp
      next
        case False
        then show ?thesis using j k(4) by simp
      qed
    qed
    moreover have
      "generateReferenceNumber_loop year existingRefs counter = reference_template year k"
      using True k(2)
      by (simp add: generateReferenceNumber_loop.simps [of year existingRefs counter])
    moreover have "counter \<le> k" using k(1) by simp
    ultimately show ?thesis using k(3) by blast
  next
    case False
    then have
      "generateReferenceNumber_loop year existingRefs counter = reference_template year counter"
      by (simp add: generateReferenceNumber_loop.simps [of year existingRefs counter])
    with False show ?thesis by auto
  qed
qed

lemma generateReferenceNumber_at:
  assumes "1 \<le> n"
    and "reference_template year ` {1..<n} \<subseteq> set existingRefs"
    and "reference_template year n \<notin> set existingRefs"
  shows "generateReferenceNumber year existingRefs = reference_template year n"
proof -
  obtain k where k: "1 \<le> k"
    "generateReferenceNumber_loop year existingRefs 1 = reference_template year k"
    "reference_template year k \<notin> set existingRefs"
    "\<forall>j. 1 \<le> j \<and> j < k \<longrightarrow> reference_template year j \<in> set existingRefs"
    using generateReferenceNumber_loop_least [of 1 year existingRefs] by blast
  have "\<not> k < n"
  proof
    assume "k < n"
    then have "reference_template year k \<in> reference_template year ` {1..<n}"
      using k(1) by simp
    then show False using assms(2) k(3) by blast
  qed
  moreover have "\<not> n < k"
    using k(4) assms(1,3) by blast
  ultimately have "k = n" by simp
  then show ?thesis using k(2) by (simp add: generateReferenceNumber_def)
qed

lemma toString_length_gt: "10 ^ k \<le> n \<Longrightarrow> k < length (toString n)"
proof (induction k arbitrary: n)
  case 0
  show ?case by (subst toString.simps) simp
next
  case (Suc k)
  then have ten: "10 * 10 ^ k \<le> n" by simp
  have "(1::nat) \<le> 10 ^ k" by simp
  then have "(10::nat) \<le> 10 * 10 ^ k" by simp
  with ten have n: "\<not> n < 10" by linarith
  have "10 ^ k \<le> n div 10"
    using ten by (simp add: less_eq_div_iff_mult_less_eq mult.commute)
  then have "k < length (toString (n div 10))" by (rule Suc.IH)
  with n show ?case by (simp add: toString.simps [of n])
qed

lemma padStart_long: "n \<le> length s \<Longrightarrow> padStart s n c = s"
  by (simp add: padStart_def)

lemma replicate_small:
  "replicate 3 c = [c, c, c]" "replicate 2 c = [c, c]" "replicate 1 c = [c]"
  by (simp_all add: numeral_eq_Suc)

lemmas numeral_evals = padStart_def toString.simps digit_def replicate_small




text \<open>
  Claim C6. The \<open>n\<close>-th allocation of a year is the allocation against a used set that
  holds the candidates of the sequence numbers \<open>1 .. n - 1\<close> of that year and not the one
  of \<open>n\<close>. It returns \<open>GT-<year>-<sequence>\<close> where the sequence part is the decimal
  numeral of \<open>n\<close> padded with zeros: it consists of digits only and reads back as \<open>n\<close>,
  it is exactly 4 characters long for every \<open>n \<le> 9999\<close>, it is the numeral of \<open>n\<close>
  itself, uncut, from 1000 on, and it is the 5 characters \<open>10000\<close> for \<open>n = 10000\<close>: the
  loop neither wraps, nor truncates, nor fails.
\<close>

theorem generateReferenceNumber_sequence_width:
  assumes "1 \<le> n"
    and "reference_template year ` {1..<n} \<subseteq> set existingRefs"
    and "reference_template year n \<notin> set existingRefs"
  shows "generateReferenceNumber year existingRefs
           = ''GT-'' @ toString year @ ''-'' @ padStart (toString n) 4 CHR ''0''
       \<and> list_all isDigit (padStart (toString n) 4 CHR ''0'')
       \<and> decimal_value (padStart (toString n) 4 CHR ''0'') = n
       \<and> (n \<le> 9999 \<longrightarrow> length (padStart (toString n) 4 CHR ''0'') = 4)
       \<and> (1000 \<le> n \<longrightarrow> padStart (toString n) 4 CHR ''0'' = toString n)
       \<and> (n = 10000 \<longrightarrow> padStart (toString n) 4 CHR ''0'' = ''10000'')"
proof -
  have "generateReferenceNumber year existingRefs
          = ''GT-'' @ toString year @ ''-'' @ padStart (toString n) 4 CHR ''0''"
    using generateReferenceNumber_at [OF assms] by (simp add: reference_template_def)
  moreover have "list_all isDigit (padStart (toString n) 4 CHR ''0'')"
    by (simp add: padStart_digits toString_digits)
  moreover have "decimal_value (padStart (toString n) 4 CHR ''0'') = n"
    by (simp add: decimal_value_padStart decimal_value_toString)
  moreover have "length (padStart (toString n) 4 CHR ''0'') = 4" if "n \<le> 9999"
  proof -
    have "n < 10 ^ 4" using that by simp
    then have "length (toString n) \<le> 4" by (intro toString_length_le) simp_all
    then show ?thesis by (simp add: padStart_length)
  qed
  moreover have "padStart (toString n) 4 CHR ''0'' = toString n" if "1000 \<le> n"
  proof -
    have "10 ^ 3 \<le> n" using that by simp
    then have "3 < length (toString n)" by (rule toString_length_gt)
    then show ?thesis by (simp add: padStart_long)
  qed
  moreover have "padStart (toString n) 4 CHR ''0'' = ''10000''" if "n = 10000"
    unfolding that by (simp add: numeral_evals)
  ultimately show ?thesis by blast
qed

theorem generateReferenceNumber_sequence_width_witness:
  "generateReferenceNumber 2025 [] = ''GT-2025-0001''
   \<and> generateReferenceNumber 2025 (map (reference_template 2025) [1..<10000])
       = ''GT-2025-10000''"
proof -
  let ?used = "map (reference_template 2025) [1..<10000]"
  have y: "toString 2025 = ''2025''" by (simp add: numeral_evals)
  have one: "padStart (toString 1) 4 CHR ''0'' = ''0001''" by (simp add: numeral_evals)
  have "generateReferenceNumber 2025 []
      = ''GT-'' @ toString 2025 @ ''-'' @ padStart (toString 1) 4 CHR ''0''"
    using generateReferenceNumber_sequence_width [of 1 2025 "[]"] by simp
  then have first: "generateReferenceNumber 2025 [] = ''GT-2025-0001''"
    by (simp only: y one) simp
  have h1: "(1::nat) \<le> 10000" by simp
  have h2: "reference_template 2025 ` {1..<10000} \<subseteq> set ?used"
    by (simp only: set_map set_upt subset_refl)
  have "reference_template 2025 10000 \<notin> reference_template 2025 ` {1..<10000}"
    by (auto simp: reference_template_inj)
  then have h3: "reference_template 2025 10000 \<notin> set ?used"
    by (simp only: set_map set_upt not_False_eq_True)
  have "generateReferenceNumber 2025 ?used
      = ''GT-'' @ toString 2025 @ ''-'' @ padStart (toString 10000) 4 CHR ''0''"
    and "padStart (toString 10000) 4 CHR ''0'' = ''10000''"
    using generateReferenceNumber_sequence_width [OF h1 h2 h3] by blast+
  then have "generateReferenceNumber 2025 ?used = ''GT-2025-10000''"
    by (simp only: y) simp
  with first show ?thesis by (simp only: simp_thms)
qed

section \<open>Properties of the worker's submission\<close>

lemma generateReferenceNumber_empty:
  "generateReferenceNumber y [] = reference_template y (Suc 0)"
  by (simp add: generateReferenceNumber_def generateReferenceNumber_loop.simps [of y "[]" "Suc 0"])

lemma reference_template_first:
  "reference_template y (Suc 0) = ''GT-'' @ toString y @ ''-0001''"
  by (simp add: reference_template_def padStart_def toString.simps [of "Suc 0"] digit_def
      replicate_small)

lemma insert_row_empty: "insert_row [] r = Some [r]"
  by (simp add: insert_row_def)

lemma total_of_sum_list: "total_of its = (\<Sum>it\<leftarrow>its. price it * quantity it)"
proof -
  have "foldl (\<lambda>sum it. sum + price it * quantity it) a its
          = a + (\<Sum>it\<leftarrow>its. price it * quantity it)" for a
    by (induction its arbitrary: a) simp_all
  then show ?thesis by (simp add: total_of_def)
qed

lemma generateReferenceNumber_fresh: "generateReferenceNumber y refs \<notin> set refs"
  using generateReferenceNumber_loop_least [of 1 y refs]
  unfolding generateReferenceNumber_def by metis

lemma handleQuotes_POST_created_total:
  assumes "handleQuotes_POST e table body = (Response (QuoteCreated q msg) code, table')"
  shows "totalAmount q = (\<Sum>it\<leftarrow>items q. price it * quantity it) \<and> status q = ''pending''
       \<and> referenceNumber q \<notin> row_reference_number ` set table"
proof -
  have "generateReferenceNumber (getFullYear e) (map row_reference_number table)
          \<notin> set (map row_reference_number table)"
    by (rule generateReferenceNumber_fresh)
  then have "generateReferenceNumber (getFullYear e) (map row_reference_number table)
          \<notin> row_reference_number ` set table"
    by simp
  then show ?thesis
    using assms
    by (auto simp: handleQuotes_POST_def jsonResponse_def Let_def total_of_sum_list
        split: option.splits if_splits)
qed


text \<open>
  Claim C9, as amended. On an empty table, the submission of one item \<open>Course\<close> of
  price 350 and quantity 2 by the customer Jo Doe, \<open>jo@example.com\<close>, is answered 201
  with a quote of total amount \<open>700 = 350 * 2\<close>, of status \<open>pending\<close> and of reference
  \<open>GT-<year>-0001\<close>, and the one row stored carries the same amount, status and
  reference. The quote has one amount, its property \<open>totalAmount\<close>: the properties of
  the quote object are \<open>id\<close>, \<open>referenceNumber\<close>, \<open>customer\<close>, \<open>items\<close>,
  \<open>totalAmount\<close>, \<open>currency\<close>, \<open>status\<close>, \<open>comments\<close> and \<open>createdAt\<close>, with no
  subtotal among them.
\<close>

theorem scenario_A_on_empty_store:
  "handleQuotes_POST e []
     \<lparr>body_items = Some [\<lparr>name = ''Course'', price = 350, quantity = 2\<rparr>],
      body_customer = Some \<lparr>firstName = ''Jo'', lastName = ''Doe'', email = ''jo@example.com'',
                             phone = None, company = None\<rparr>,
      body_comments = None, body_other = []\<rparr>
   = (jsonResponse
        (QuoteCreated
           \<lparr>quoteId = generateUUID e,
            referenceNumber = ''GT-'' @ toString (getFullYear e) @ ''-0001'',
            customer = \<lparr>firstName = ''Jo'', lastName = ''Doe'', email = ''jo@example.com'',
                        phone = None, company = None\<rparr>,
            items = [\<lparr>name = ''Course'', price = 350, quantity = 2\<rparr>],
            totalAmount = 700, currency = ''ZAR'', status = ''pending'', comments = None,
            createdAt = date_now e\<rparr>
           ''Quote created successfully'') 201,
      [\<lparr>row_id = generateUUID e,
        row_reference_number = ''GT-'' @ toString (getFullYear e) @ ''-0001'',
        row_customer_data = \<lparr>firstName = ''Jo'', lastName = ''Doe'',
                              email = ''jo@example.com'', phone = None, company = None\<rparr>,
        row_items = [\<lparr>name = ''Course'', price = 350, quantity = 2\<rparr>],
        row_total_amount = 700, row_currency = ''ZAR'', row_status = ''pending'',
        row_comments = None, row_created_at = current_timestamp e,
        row_updated_at = current_timestamp e\<rparr>])
   \<and> map_of (quote_object
           \<lparr>quoteId = generateUUID e,
            referenceNumber = ''GT-'' @ toString (getFullYear e) @ ''-0001'',
            customer = \<lparr>firstName = ''Jo'', lastName = ''Doe'', email = ''jo@example.com'',
                        phone = None, company = None\<rparr>,
            items = [\<lparr>name = ''Course'', price = 350, quantity = 2\<rparr>],
            totalAmount = 700, currency = ''ZAR'', status = ''pending'', comments = None,
            createdAt = date_now e\<rparr>) ''totalAmount'' = Some (Number 700)
   \<and> map fst (quote_object
           \<lparr>quoteId = generateUUID e,
            referenceNumber = ''GT-'' @ toString (getFullYear e) @ ''-0001'',
            customer = \<lparr>firstName = ''Jo'', lastName = ''Doe'', email = ''jo@example.com'',
                        phone = None, company = None\<rparr>,
            items = [\<lparr>name = ''Course'', price = 350, quantity = 2\<rparr>],
            totalAmount = 700, currency = ''ZAR'', status = ''pending'', comments = None,
            createdAt = date_now e\<rparr>)
       = [''id'', ''referenceNumber'', ''customer'', ''items'', ''totalAmount'', ''currency'',
          ''status'', ''comments'', ''createdAt'']"
  by (simp add: handleQuotes_POST_def generateReferenceNumber_empty reference_template_first
      insert_row_empty total_of_def or_null_def Let_def quote_object_def)

text \<open>
  The claim C9 as it is written fails on its conjunct "subtotal equal to total": the
  quote that the scenario is answered with has no property \<open>subtotal\<close> and no property
  \<open>total\<close>; its amount is the property \<open>totalAmount\<close>.
\<close>

theorem scenario_A_no_subtotal_counterexample:
  "fst (handleQuotes_POST \<lparr>getFullYear = 2025, generateUUID = ''u-1'', date_now = 7, current_timestamp = 5\<rparr> []
       \<lparr>body_items = Some [\<lparr>name = ''Course'', price = 350, quantity = 2\<rparr>],
        body_customer = Some \<lparr>firstName = ''Jo'', lastName = ''Doe'', email = ''jo@example.com'',
                              phone = None, company = None\<rparr>,
        body_comments = None, body_other = []\<rparr>)
   = jsonResponse
       (QuoteCreated
          \<lparr>quoteId = ''u-1'', referenceNumber = ''GT-2025-0001'',
           customer = \<lparr>firstName = ''Jo'', lastName = ''Doe'', email = ''jo@example.com'',
                              phone = None, company = None\<rparr>,
           items = [\<lparr>name = ''Course'', price = 350, quantity = 2\<rparr>],
           totalAmount = 700, currency = ''ZAR'', status = ''pending'', comments = None,
           createdAt = 7\<rparr>
          ''Quote created successfully'') 201
   \<and> map_of (quote_object
          \<lparr>quoteId = ''u-1'', referenceNumber = ''GT-2025-0001'',
           customer = \<lparr>firstName = ''Jo'', lastName = ''Doe'', email = ''jo@example.com'',
                              phone = None, company = None\<rparr>,
           items = [\<lparr>name = ''Course'', price = 350, quantity = 2\<rparr>],
           totalAmount = 700, currency = ''ZAR'', status = ''pending'', comments = None,
           createdAt = 7\<rparr>) ''subtotal'' = None
   \<and> map_of (quote_object
          \<lparr>quoteId = ''u-1'', referenceNumber = ''GT-2025-0001'',
           customer = \<lparr>firstName = ''Jo'', lastName = ''Doe'', email = ''jo@example.com'',
                              phone = None, company = None\<rparr>,
           items = [\<lparr>name = ''Course'', price = 350, quantity = 2\<rparr>],
           totalAmount = 700, currency = ''ZAR'', status = ''pending'', comments = None,
           createdAt = 7\<rparr>) ''total'' = None
   \<and> map_of (quote_object
          \<lparr>quoteId = ''u-1'', referenceNumber = ''GT-2025-0001'',
           customer = \<lparr>firstName = ''Jo'', lastName = ''Doe'', email = ''jo@example.com'',
                              phone = None, company = None\<rparr>,
           items = [\<lparr>name = ''Course'', price = 350, quantity = 2\<rparr>],
           totalAmount = 700, currency = ''ZAR'', status = ''pending'', comments = None,
           createdAt = 7\<rparr>) ''totalAmount'' = Some (Number 700)"
  by (simp add: handleQuotes_POST_def generateReferenceNumber_empty reference_template_first
      insert_row_empty total_of_def Let_def numeral_evals quote_object_def)

text \<open>
  Claim C10. Whatever the request holds, a quote that the worker's submission creates
  has the currency \<open>ZAR\<close>, in the answer and in the row appended to the table: the
  handler writes the constant and reads no currency from the body.
\<close>

theorem worker_currency_is_ZAR:
  assumes "handleQuotes_POST e table body = (Response (QuoteCreated q msg) code, table')"
  shows "currency q = ''ZAR''
       \<and> (\<exists>r. table' = table @ [r] \<and> row_id r = quoteId q \<and> row_currency r = ''ZAR'')"
  using assms
  by (auto simp: handleQuotes_POST_def jsonResponse_def insert_row_def Let_def
      split: option.splits if_splits)

theorem worker_currency_is_ZAR_witness:
  "\<exists>q msg table'.
     handleQuotes_POST \<lparr>getFullYear = 2025, generateUUID = ''u-1'', date_now = 7, current_timestamp = 5\<rparr> []
       \<lparr>body_items = Some [\<lparr>name = ''Course'', price = 350, quantity = 2\<rparr>],
        body_customer = Some \<lparr>firstName = ''Jo'', lastName = ''Doe'',
                              email = ''jo@example.com'', phone = None, company = None\<rparr>,
        body_comments = None, body_other = [(''currency'', ''USD'')]\<rparr>
       = (Response (QuoteCreated q msg) 201, table')
     \<and> currency q = ''ZAR''
     \<and> (\<exists>r. table' = [] @ [r] \<and> row_id r = quoteId q \<and> row_currency r = ''ZAR'')"
proof -
  let ?e = "\<lparr>getFullYear = 2025, generateUUID = ''u-1'', date_now = 7, current_timestamp = 5\<rparr>"
  let ?body = "\<lparr>body_items = Some [\<lparr>name = ''Course'', price = 350, quantity = 2\<rparr>],
        body_customer = Some \<lparr>firstName = ''Jo'', lastName = ''Doe'',
                              email = ''jo@example.com'', phone = None, company = None\<rparr>,
        body_comments = None, body_other = [(''currency'', ''USD'')]\<rparr>"
  obtain q msg table' where
    run: "handleQuotes_POST ?e [] ?body = (Response (QuoteCreated q msg) 201, table')"
    by (simp add: handleQuotes_POST_def generateReferenceNumber_empty insert_row_empty
        jsonResponse_def Let_def)
  from worker_currency_is_ZAR [OF run] run show ?thesis by blast
qed







section \<open>Properties of the worker's lookup and listing\<close>

lemma reference_lookup_accepts_one_text:
  "(http_status (handleQuotes_GET_reference table reference) \<noteq> 400)
     = (reference = ''GT-'' @ [backslash] @ ''dddd-'' @ [backslash] @ ''dddd'')"
  by (simp add: handleQuotes_GET_reference_def reference_regex_test_def jsonResponse_def
      numeral_eq_Suc split: option.splits)

lemma reference_lookup_rejects_spec_pattern:
  assumes "spec_reference_pattern reference"
  shows "handleQuotes_GET_reference table reference
           = jsonResponse
               (Failure ''Invalid reference number format. Expected: GT-YYYY-NNNN'') 400"
proof -
  have "\<not> reference_regex_test reference"
  proof
    assume "reference_regex_test reference"
    then have "take 4 (drop 3 reference) = backslash # ''ddd''"
      by (simp add: reference_regex_test_def numeral_eq_Suc)
    moreover have "list_all isDigit (take 4 (drop 3 reference))"
      using assms by (simp add: spec_reference_pattern_def)
    ultimately show False
      by (simp add: isDigit_def backslash_def)
  qed
  then show ?thesis by (simp add: handleQuotes_GET_reference_def)
qed

text \<open>
  Claim C3 fails on the code. The reference \<open>GT-2025-10000\<close>, which has the shape of the
  specification (a sequence part of five digits) and which \<open>generateReferenceNumber\<close>
  returns as the 10000th reference of 2025, is answered 400 as malformed, whatever the
  table holds: the lookup never reaches the table for it.
\<close>

theorem reference_lookup_rejects_five_digit_sequence:
  "spec_reference_pattern ''GT-2025-10000''
   \<and> handleQuotes_GET_reference table ''GT-2025-10000''
       = jsonResponse
           (Failure ''Invalid reference number format. Expected: GT-YYYY-NNNN'') 400"
  by (simp add: spec_reference_pattern_def isDigit_def handleQuotes_GET_reference_def
      reference_regex_test_def backslash_def)

lemma listing_defaults:
  "handleQuotes_GET_all table None None
     = jsonResponse
         (QuoteList (take 50 (order_by_created_at_desc table)) 50 0
            (length (take 50 (order_by_created_at_desc table)))) 200"
  by (simp add: handleQuotes_GET_all_def or_default_def)

lemma listing_limit_out_of_range:
  "n \<noteq> 0 \<Longrightarrow> n < 1 \<or> 100 < n \<Longrightarrow>
     handleQuotes_GET_all table (Some n) parsedOffset
       = jsonResponse (Failure ''Limit must be between 1 and 100'') 400"
  by (auto simp: handleQuotes_GET_all_def or_default_def)

lemma listing_limit_in_range:
  "1 \<le> n \<Longrightarrow> n \<le> 100 \<Longrightarrow>
     http_status (handleQuotes_GET_all table (Some n) parsedOffset) = 200"
  by (auto simp: handleQuotes_GET_all_def or_default_def jsonResponse_def Let_def)

text \<open>
  Claim C8 fails on the code at the limit 0. A limit that parses to 0 is falsy, so
  \<open>||\<close> replaces it by 50 before the range check runs: the request is answered 200
  with up to 50 quotes and \<open>pagination.limit = 50\<close>, exactly as when the limit is left
  out, and is not rejected.
\<close>

theorem listing_limit_zero_replaced_by_default:
  "handleQuotes_GET_all table (Some 0) None
     = jsonResponse
         (QuoteList (take 50 (order_by_created_at_desc table)) 50 0
            (length (take 50 (order_by_created_at_desc table)))) 200"
  by (simp add: handleQuotes_GET_all_def or_default_def)

section \<open>Properties of the database service\<close>

lemma createQuote_postgres_conflict:
  assumes "pgPool db = Some table"
    and "qs_id q \<in> qs_id ` set table
         \<or> qs_referenceNumber q \<in> qs_referenceNumber ` set table"
  shows "createQuote db q = (Inl UniqueViolation, db)"
  using assms by (auto simp: createQuote_def pg_insert_def)

text \<open>
  Claim C2 fails on the code in the in-memory branch. With \<open>pgPool\<close> null and a quote
  \<open>q\<close> in \<open>devQuoteStorage\<close>, \<open>createQuote(q)\<close> returns \<open>q\<close> and the array then
  holds \<open>q\<close> twice: two quotes of one id and one reference, and no error.
\<close>

theorem createQuote_in_memory_accepts_duplicate:
  "createQuote \<lparr>pgPool = None, devQuoteStorage = [q]\<rparr> q
     = (Inr q, \<lparr>pgPool = None, devQuoteStorage = [q, q]\<rparr>)"
  by (simp add: createQuote_def)

lemma getAllQuotes_postgres_descending:
  assumes "pgPool db = Some table"
  shows "sorted_wrt (\<lambda>a b. qs_createdAt a \<ge> qs_createdAt b)
           (getAllQuotes db limitArg offsetArg)"
proof -
  have "sorted (map qs_createdAt (sort_key qs_createdAt table))" by simp
  then have "sorted_wrt (\<lambda>a b. qs_createdAt a \<le> qs_createdAt b) (sort_key qs_createdAt table)"
    by (simp add: sorted_map)
  then have "sorted_wrt (\<lambda>a b. qs_createdAt a \<ge> qs_createdAt b)
               (order_by_createdAt_desc table)"
    by (simp add: order_by_createdAt_desc_def sorted_wrt_rev)
  then show ?thesis
    using assms by (simp add: getAllQuotes_def)
qed

lemma getAllQuotes_postgres_newest_first:
  assumes "qs_createdAt q1 < qs_createdAt q2" and "qs_createdAt q2 < qs_createdAt q3"
  shows "getAllQuotes \<lparr>pgPool = Some [q1, q2, q3], devQuoteStorage = []\<rparr> (Some 1) (Some 0)
           = [q3]"
  using assms by (simp add: getAllQuotes_def order_by_createdAt_desc_def)

text \<open>
  Claim C5 fails on the code in the in-memory branch. With \<open>pgPool\<close> null, after the
  three calls \<open>createQuote(q1)\<close>, \<open>createQuote(q2)\<close>, \<open>createQuote(q3)\<close> on an empty
  array, \<open>getAllQuotes(1, 0)\<close> returns the quote created first, \<open>q1\<close>, whatever the
  \<open>createdAt\<close> of the three quotes: the array is sliced in the order of insertion.
\<close>

theorem getAllQuotes_in_memory_oldest_first:
  "getAllQuotes
     (snd (createQuote (snd (createQuote (snd (createQuote
        \<lparr>pgPool = None, devQuoteStorage = []\<rparr> q1)) q2)) q3))
     (Some 1) (Some 0) = [q1]"
  by (simp add: createQuote_def getAllQuotes_def slice_def)

end
